theory Spec2Isabelle
  imports Main
begin

section \<open>The inventory store (models/Stock.js)\<close>

text \<open>
  A document of the \<open>Stock\<close> collection. The schema gives it the fields
  \<open>productId\<close>, \<open>size\<close>, \<open>color\<close> (strings) and \<open>quantity\<close> (a number; the
  specification's data model makes it an integer). The fields \<open>size\<close> and \<open>color\<close> are
  named \<open>stock_size\<close> and \<open>stock_color\<close> here, \<open>size\<close> being a constant of HOL.
  The validator \<open>min: 0\<close> of the schema runs when a document is saved or validated; the
  routes below never save, they query and update in place.
\<close>

record stock_doc =
  productId :: string
  stock_size :: string
  stock_color :: string
  quantity :: int

text \<open>An element of the request's \<open>items\<close> array: \<open>{id, size, color, quantity}\<close>.\<close>

record item =
  item_id :: string
  item_size :: string
  item_color :: string
  item_quantity :: int

text \<open>
  What the two routes of routes/stockRoutes.js ask of the database, in the order they
  ask it. The log is kept so that \<open>no store access\<close> is a statement about a value.
\<close>

datatype store_op =
    OpStartSession
  | OpStartTransaction
  | OpFindOne string string string
  | OpFindOneAndUpdate string string string int
  | OpCommit
  | OpAbort
  | OpEndSession

text \<open>
  The database as one request sees it: the committed documents of the collection, the
  working copy of the session's open transaction (if one is open), and the log.
\<close>

record db =
  committed :: "stock_doc list"
  pending :: "stock_doc list option"
  oplog :: "store_op list"

definition doc_key :: "stock_doc \<Rightarrow> string \<times> string \<times> string" where
  "doc_key d = (productId d, stock_size d, stock_color d)"

text \<open>The unique compound index of Stock.js, line 12.\<close>

definition unique_index :: "stock_doc list \<Rightarrow> bool" where
  "unique_index docs = distinct (map doc_key docs)"

text \<open>The filter \<open>{productId: item.id, size: item.size, color: item.color}\<close>.\<close>

definition matches_key :: "item \<Rightarrow> stock_doc \<Rightarrow> bool" where
  "matches_key it d \<longleftrightarrow>
     productId d = item_id it \<and> stock_size d = item_size it \<and> stock_color d = item_color it"

text \<open>The documents an operation carrying the session reads and writes.\<close>

definition view :: "db \<Rightarrow> stock_doc list" where
  "view s = (case pending s of Some w \<Rightarrow> w | None \<Rightarrow> committed s)"

definition record_op :: "store_op \<Rightarrow> db \<Rightarrow> db" where
  "record_op x s = s\<lparr>oplog := oplog s @ [x]\<rparr>"

text \<open>\<open>Stock.findOne(filter)\<close>, called without a session: it reads committed data.\<close>

definition findOne :: "db \<Rightarrow> item \<Rightarrow> stock_doc option \<times> db" where
  "findOne s it =
     (find (matches_key it) (committed s),
      record_op (OpFindOne (item_id it) (item_size it) (item_color it)) s)"

text \<open>
  The database's find-and-modify on a collection: the first document that satisfies the
  filter is replaced by its update, and (with \<open>new: true\<close>) the updated document is
  returned; \<open>null\<close> when no document satisfies the filter.
\<close>

fun update_first ::
  "(stock_doc \<Rightarrow> bool) \<Rightarrow> (stock_doc \<Rightarrow> stock_doc) \<Rightarrow> stock_doc list
     \<Rightarrow> stock_doc option \<times> stock_doc list" where
  "update_first P f [] = (None, [])"
| "update_first P f (d # ds) =
     (if P d then (Some (f d), f d # ds)
      else (case update_first P f ds of (r, ds') \<Rightarrow> (r, d # ds')))"

text \<open>
  The call of lines 44-53,
  \<open>Stock.findOneAndUpdate(filter, update, {new: true, session})\<close>, with the filter
  \<open>{productId: item.id, size: item.size, color: item.color,
  quantity: {$gte: item.quantity}}\<close> and the update
  \<open>{$inc: {quantity: -item.quantity}}\<close>. With a transaction open on the session it
  works on the transaction's copy.
\<close>

definition gte_filter :: "item \<Rightarrow> stock_doc \<Rightarrow> bool" where
  "gte_filter it d \<longleftrightarrow> matches_key it d \<and> item_quantity it \<le> quantity d"

definition inc_update :: "item \<Rightarrow> stock_doc \<Rightarrow> stock_doc" where
  "inc_update it d = d\<lparr>quantity := quantity d + (- item_quantity it)\<rparr>"

definition findOneAndUpdate :: "db \<Rightarrow> item \<Rightarrow> stock_doc option \<times> db" where
  "findOneAndUpdate s it =
     (let s1 = record_op
                 (OpFindOneAndUpdate (item_id it) (item_size it) (item_color it)
                    (item_quantity it)) s
      in case pending s of
           Some w \<Rightarrow>
             (case update_first (gte_filter it) (inc_update it) w of
                (r, w') \<Rightarrow> (r, s1\<lparr>pending := Some w'\<rparr>))
         | None \<Rightarrow>
             (case update_first (gte_filter it) (inc_update it) (committed s) of
                (r, c') \<Rightarrow> (r, s1\<lparr>committed := c'\<rparr>)))"

definition startSession :: "db \<Rightarrow> db" where
  "startSession s = record_op OpStartSession s"

definition startTransaction :: "db \<Rightarrow> db" where
  "startTransaction s = record_op OpStartTransaction (s\<lparr>pending := Some (committed s)\<rparr>)"

definition commitTransaction :: "db \<Rightarrow> db" where
  "commitTransaction s =
     record_op OpCommit (s\<lparr>committed := view s, pending := None\<rparr>)"

definition abortTransaction :: "db \<Rightarrow> db" where
  "abortTransaction s = record_op OpAbort (s\<lparr>pending := None\<rparr>)"

definition endSession :: "db \<Rightarrow> db" where
  "endSession s = record_op OpEndSession (s\<lparr>pending := None\<rparr>)"

section \<open>Requests, errors and responses\<close>

text \<open>
  The value of \<open>req.body.items\<close>. \<open>NotIterable\<close> stands for a missing field
  (\<open>undefined\<close>), \<open>null\<close>, a number or a plain object: \<open>for (const item of items)\<close>
  throws a TypeError on each of them. An element of the array is an object with the four
  fields, or \<open>null\<close>, on which reading \<open>item.id\<close>, the first property either loop
  reads, throws a TypeError.
\<close>

datatype item_value = ItemNull | ItemObj item

datatype items_field = NotIterable | ItemsArray "item_value list"

datatype js_error = ReferenceError string | TypeError string | Error string

text \<open>The message of the TypeError for \<open>item.id\<close> on \<open>null\<close>.\<close>

definition null_message :: string where
  "null_message = ''Cannot read properties of null (reading 'id')''"

fun message :: "js_error \<Rightarrow> string" where
  "message (ReferenceError x) = x @ '' is not defined''"
| "message (TypeError m) = m"
| "message (Error m) = m"

record check_result =
  res_id :: string
  res_size :: string
  res_color :: string
  available :: int
  requested :: int

record update_entry =
  upd_id :: string
  upd_size :: string
  upd_color :: string
  newStock :: int

text \<open>
  The JSON bodies the routes send: \<open>{success: true, results}\<close>,
  \<open>{success: true, updates}\<close>, \<open>{success: false, error}\<close>, the plain text of
  \<open>res.send\<close> and \<open>{success: true}\<close>.
\<close>

datatype response_body =
    CheckResults "check_result list"
  | Updates "update_entry list"
  | Failure string
  | Text string
  | Success

text \<open>
  A handler either sends a response with a status, or its promise is rejected with an
  error nobody catches, and no response is sent.
\<close>

datatype outcome = Response nat response_body | Unhandled js_error

fun is_success :: "outcome \<Rightarrow> bool" where
  "is_success (Response st (CheckResults rs)) = True"
| "is_success (Response st (Updates us)) = True"
| "is_success (Response st Success) = True"
| "is_success (Response st (Failure m)) = False"
| "is_success (Response st (Text m)) = False"
| "is_success (Unhandled e) = False"

section \<open>POST /check-stock (stockRoutes.js, lines 7-32)\<close>

fun check_loop ::
  "db \<Rightarrow> item_value list \<Rightarrow> check_result list \<Rightarrow> (js_error + check_result list) \<times> db" where
  "check_loop s [] results = (Inr results, s)"
| "check_loop s (ItemNull # rest) results =
     (Inl (TypeError null_message), s)"
| "check_loop s (ItemObj it # rest) results =
     (case findOne s it of
        (product, s') \<Rightarrow>
          check_loop s' rest
            (results @
               [\<lparr>res_id = item_id it, res_size = item_size it, res_color = item_color it,
                 available = (case product of Some p \<Rightarrow> quantity p | None \<Rightarrow> 0),
                 requested = item_quantity it\<rparr>]))"

definition check_stock :: "db \<Rightarrow> items_field \<Rightarrow> outcome \<times> db" where
  "check_stock s items =
     (case (case items of
              NotIterable \<Rightarrow> (Inl (TypeError ''items is not iterable''), s)
            | ItemsArray xs \<Rightarrow> check_loop s xs []) of
        (Inr results, s') \<Rightarrow> (Response 200 (CheckResults results), s')
      | (Inl e, s') \<Rightarrow> (Response 500 (Failure (message e)), s'))"

section \<open>POST /update-stock (stockRoutes.js, lines 35-75)\<close>

text \<open>
  The identifiers the module binds (lines 2-4) and those Node's module wrapper passes
  in. The module has no \<open>require('mongoose')\<close>, and nothing in the repository assigns a
  global of that name.
\<close>

definition stockRoutes_bindings :: "string list" where
  "stockRoutes_bindings = [''express'', ''router'', ''Stock'']"

definition node_module_wrapper :: "string list" where
  "node_module_wrapper = [''exports'', ''require'', ''module'', ''__filename'', ''__dirname'']"

definition resolve :: "string \<Rightarrow> js_error + unit" where
  "resolve x =
     (if x \<in> set (stockRoutes_bindings @ node_module_wrapper) then Inr ()
      else Inl (ReferenceError x))"

definition insufficient_message :: "item \<Rightarrow> string" where
  "insufficient_message it =
     ''Stock insuficiente para '' @ item_id it @ ''-'' @ item_size it @ ''-'' @ item_color it"

text \<open>The \<open>for\<close> loop of lines 43-65.\<close>

fun update_loop ::
  "db \<Rightarrow> item_value list \<Rightarrow> update_entry list \<Rightarrow> (js_error + update_entry list) \<times> db" where
  "update_loop s [] updates = (Inr updates, s)"
| "update_loop s (ItemNull # rest) updates =
     (Inl (TypeError null_message), s)"
| "update_loop s (ItemObj it # rest) updates =
     (case findOneAndUpdate s it of
        (None, s') \<Rightarrow> (Inl (Error (insufficient_message it)), s')
      | (Some result, s') \<Rightarrow>
          update_loop s' rest
            (updates @
               [\<lparr>upd_id = item_id it, upd_size = item_size it, upd_color = item_color it,
                 newStock = quantity result\<rparr>]))"

text \<open>
  The \<open>try\<close>/\<open>catch\<close>/\<open>finally\<close> of lines 39-74, run on a database whose session and
  transaction are open.
\<close>

definition update_stock_try :: "db \<Rightarrow> items_field \<Rightarrow> outcome \<times> db" where
  "update_stock_try s items =
     (case (case items of
              NotIterable \<Rightarrow> (Inl (TypeError ''items is not iterable''), s)
            | ItemsArray xs \<Rightarrow> update_loop s xs []) of
        (Inr updates, s') \<Rightarrow>
          (Response 200 (Updates updates), endSession (commitTransaction s'))
      | (Inl e, s') \<Rightarrow>
          (Response 400 (Failure (message e)), endSession (abortTransaction s')))"

text \<open>
  The handler. Line 36 evaluates the identifier \<open>mongoose\<close> outside the \<open>try\<close>; an
  unbound identifier rejects the handler's promise, and nothing catches it.
\<close>

definition update_stock :: "db \<Rightarrow> items_field \<Rightarrow> outcome \<times> db" where
  "update_stock s items =
     (case resolve ''mongoose'' of
        Inl e \<Rightarrow> (Unhandled e, s)
      | Inr u \<Rightarrow> update_stock_try (startTransaction (startSession s)) items)"

text \<open>
  The \<open>try\<close> block on a session and transaction opened as lines 36-37 would open them.
\<close>

definition reserve :: "db \<Rightarrow> items_field \<Rightarrow> outcome \<times> db" where
  "reserve s items = update_stock_try (startTransaction (startSession s)) items"

text \<open>
  The router: the two routes it registers, and a client that calls them one after the
  other.
\<close>

datatype call = CheckStock items_field | UpdateStock items_field

fun handle :: "db \<Rightarrow> call \<Rightarrow> outcome \<times> db" where
  "handle s (CheckStock items) = check_stock s items"
| "handle s (UpdateStock items) = update_stock s items"

fun run_calls :: "db \<Rightarrow> call list \<Rightarrow> db" where
  "run_calls s [] = s"
| "run_calls s (c # cs) = run_calls (snd (handle s c)) cs"

fun run_reservations :: "db \<Rightarrow> items_field list \<Rightarrow> db" where
  "run_reservations s [] = s"
| "run_reservations s (r # rs) = run_reservations (snd (reserve s r)) rs"

text \<open>Properties of the store's contents that the claims speak of.\<close>

definition nonneg :: "stock_doc list \<Rightarrow> bool" where
  "nonneg docs = list_all (\<lambda>d. 0 \<le> quantity d) docs"

text \<open>
  A line is unsatisfiable on a collection when every document with its key holds less
  than the line asks for; in particular when no document has its key. Under the unique
  index at most one document has the key.
\<close>

definition unsatisfiable :: "stock_doc list \<Rightarrow> item \<Rightarrow> bool" where
  "unsatisfiable docs it =
     list_all (\<lambda>d. matches_key it d \<longrightarrow> quantity d < item_quantity it) docs"

text \<open>The composite key a line asks for.\<close>

definition item_key :: "item \<Rightarrow> string \<times> string \<times> string" where
  "item_key it = (item_id it, item_size it, item_color it)"

section \<open>POST /api/products/:id/update-stock (server.js, lines 189-284)\<close>

text \<open>
  The schema's \<open>productType\<close> enum, and the shapes of the \<open>Mixed\<close> field \<open>stock\<close> that
  the handler inspects: a number, an object from keys to entries, or an array of
  \<open>{size | talla, quantity}\<close> objects. An entry under a key is a number or an object
  with a \<open>quantity\<close>.
\<close>

datatype product_type = Clothing | Accessory | Gloves | Kneepads

datatype stock_entry = EntryNumber int | EntryObject int

record size_entry =
  entry_size :: "string option"
  entry_talla :: "string option"
  entry_quantity :: int

datatype stock_shape =
    StockNumber int
  | StockObject "(string \<times> stock_entry) list"
  | StockArray "size_entry list"

record product =
  product_id :: string
  productType :: product_type
  stock :: stock_shape

text \<open>The fields \<open>{size, color, quantity}\<close> of the request body; a field may be missing.\<close>

record update_body =
  body_size :: "string option"
  body_color :: "string option"
  body_quantity :: int

text \<open>JavaScript truthiness of an optional string and of an entry.\<close>

fun truthy_string :: "string option \<Rightarrow> bool" where
  "truthy_string None = False"
| "truthy_string (Some x) = (x \<noteq> [])"

fun truthy_entry :: "stock_entry option \<Rightarrow> bool" where
  "truthy_entry None = False"
| "truthy_entry (Some (EntryNumber n)) = (n \<noteq> 0)"
| "truthy_entry (Some (EntryObject q)) = True"

text \<open>
  \<open>product.stock[key]\<close> for a key that is neither an array index nor \<open>length\<close>:
  \<open>undefined\<close> on a number and on an array.
\<close>

fun get_prop :: "stock_shape \<Rightarrow> string \<Rightarrow> stock_entry option" where
  "get_prop (StockObject kvs) k = map_of kvs k"
| "get_prop (StockNumber n) k = None"
| "get_prop (StockArray arr) k = None"

fun set_prop :: "(string \<times> stock_entry) list \<Rightarrow> string \<Rightarrow> stock_entry \<Rightarrow> (string \<times> stock_entry) list" where
  "set_prop [] k v = [(k, v)]"
| "set_prop ((k', v') # kvs) k v = (if k' = k then (k, v) # kvs else (k', v') # set_prop kvs k v)"

text \<open>
  \<open>String.prototype.toUpperCase\<close> belongs to the language, not to the repository. The
  definitions that call it take it as the parameter \<open>toUpperCase\<close>, and what is proved
  of them holds for every function on strings.
\<close>

text \<open>\<open>size?.toUpperCase() || 'UNICA'\<close>.\<close>

definition size_key :: "(string \<Rightarrow> string) \<Rightarrow> string option \<Rightarrow> string" where
  "size_key toUpperCase sz =
     (case sz of
        None \<Rightarrow> ''UNICA''
      | Some x \<Rightarrow> (if toUpperCase x \<noteq> [] then toUpperCase x else ''UNICA''))"

text \<open>\<open>item.size?.toUpperCase() === sizeKey || item.talla?.toUpperCase() === sizeKey\<close>.\<close>

definition entry_matches :: "(string \<Rightarrow> string) \<Rightarrow> string \<Rightarrow> size_entry \<Rightarrow> bool" where
  "entry_matches toUpperCase k e \<longleftrightarrow>
     map_option toUpperCase (entry_size e) = Some k
     \<or> map_option toUpperCase (entry_talla e) = Some k"

fun findIndex :: "('a \<Rightarrow> bool) \<Rightarrow> 'a list \<Rightarrow> nat option" where
  "findIndex P [] = None"
| "findIndex P (x # xs) = (if P x then Some 0 else map_option Suc (findIndex P xs))"

text \<open>
  How the \<open>switch\<close> ends: with an early \<open>return res.status(..).send(..)\<close>, or by
  reaching line 274 with the product as it is in memory, whether the path \<open>stock\<close> of
  the document was assigned, and the \<open>updated\<close> flag. The mapper tracks assignments to
  the document's paths: \<open>product.stock -= quantity\<close> assigns \<open>stock\<close>; a write to a
  property or an element inside the \<open>Mixed\<close> value does not, and the handler never calls
  \<open>markModified\<close>.
\<close>

datatype switch_result = Return nat string | Reached product bool bool

text \<open>
  \<open>product.stock[key].quantity -= quantity\<close> followed by the test \<open>< 0\<close>, on a truthy
  entry. On a number the property write is dropped (the file is not in strict mode) and
  the test reads \<open>undefined < 0\<close>, which is false.
\<close>

definition decrement_entry :: "product \<Rightarrow> (string \<times> stock_entry) list \<Rightarrow> string \<Rightarrow> stock_entry \<Rightarrow> int \<Rightarrow> switch_result" where
  "decrement_entry p kvs k e qty =
     (case e of
        EntryObject q \<Rightarrow>
          (if q - qty < 0 then Return 400 ''No hay suficiente stock''
           else Reached (p\<lparr>stock := StockObject (set_prop kvs k (EntryObject (q - qty)))\<rparr>)
                  False True)
      | EntryNumber n \<Rightarrow> Reached p False True)"

text \<open>\<open>product.stock -= quantity\<close> followed by the test \<open>< 0\<close>.\<close>

definition decrement_number :: "product \<Rightarrow> int \<Rightarrow> int \<Rightarrow> switch_result" where
  "decrement_number p n qty =
     (if n - qty < 0 then Return 400 ''No hay suficiente stock''
      else Reached (p\<lparr>stock := StockNumber (n - qty)\<rparr>) True True)"

definition switch_clothing :: "product \<Rightarrow> update_body \<Rightarrow> switch_result" where
  "switch_clothing p b =
     (if \<not> truthy_string (body_size b) \<or> \<not> truthy_string (body_color b)
      then Return 400 ''Se requieren talla y color''
      else
        (let key = the (body_size b) @ ''-'' @ the (body_color b) in
         case stock p of
           StockObject kvs \<Rightarrow>
             (case map_of kvs key of
                Some e \<Rightarrow>
                  (if truthy_entry (Some e) then decrement_entry p kvs key e (body_quantity b)
                   else Reached p False False)
              | None \<Rightarrow> Reached p False False)
         | StockNumber n \<Rightarrow> Reached p False False
         | StockArray arr \<Rightarrow> Reached p False False))"

definition switch_accessory :: "product \<Rightarrow> update_body \<Rightarrow> switch_result" where
  "switch_accessory p b =
     (case stock p of
        StockNumber n \<Rightarrow> decrement_number p n (body_quantity b)
      | StockObject kvs \<Rightarrow>
          (case map_of kvs ''default'' of
             Some e \<Rightarrow>
               (if truthy_entry (Some e) then decrement_entry p kvs ''default'' e (body_quantity b)
                else Reached p False False)
           | None \<Rightarrow> Reached p False False)
      | StockArray arr \<Rightarrow> Reached p False False)"

definition switch_gloves :: "(string \<Rightarrow> string) \<Rightarrow> product \<Rightarrow> update_body \<Rightarrow> switch_result" where
  "switch_gloves toUpperCase p b =
     (let sizeKey = size_key toUpperCase (body_size b) in
      case stock p of
        StockArray arr \<Rightarrow>
          (case findIndex (entry_matches toUpperCase sizeKey) arr of
             Some i \<Rightarrow>
               (if entry_quantity (arr ! i) - body_quantity b < 0
                then Return 400 ''No hay suficiente stock''
                else Reached
                       (p\<lparr>stock := StockArray
                            (arr[i := (arr ! i)\<lparr>entry_quantity :=
                                        entry_quantity (arr ! i) - body_quantity b\<rparr>])\<rparr>)
                       False True)
           | None \<Rightarrow> Reached p False False)
      | StockObject kvs \<Rightarrow>
          (case map_of kvs sizeKey of
             Some e \<Rightarrow>
               (if truthy_entry (Some e) then
                  (let currentQuantity = (case e of EntryObject q \<Rightarrow> q | EntryNumber n \<Rightarrow> n);
                       newQuantity = currentQuantity - body_quantity b
                   in if newQuantity < 0 then Return 400 ''No hay suficiente stock''
                      else Reached
                             (p\<lparr>stock := StockObject
                                  (set_prop kvs sizeKey
                                     (case e of
                                        EntryObject q \<Rightarrow> EntryObject newQuantity
                                      | EntryNumber n \<Rightarrow> EntryNumber newQuantity))\<rparr>)
                             False True)
                else Reached p False False)
           | None \<Rightarrow> Reached p False False)
      | StockNumber n \<Rightarrow> decrement_number p n (body_quantity b))"

definition switch_productType :: "(string \<Rightarrow> string) \<Rightarrow> product \<Rightarrow> update_body \<Rightarrow> switch_result" where
  "switch_productType toUpperCase p b =
     (case productType p of
        Clothing \<Rightarrow> switch_clothing p b
      | Accessory \<Rightarrow> switch_accessory p b
      | Gloves \<Rightarrow> switch_gloves toUpperCase p b
      | Kneepads \<Rightarrow> switch_gloves toUpperCase p b)"

text \<open>
  \<open>product.save()\<close>: when the path \<open>stock\<close> was assigned, the document with the
  product's id is replaced by the product as it is in memory; when it was not, the
  mapper finds nothing modified and writes nothing.
\<close>

definition save :: "product \<Rightarrow> bool \<Rightarrow> product list \<Rightarrow> product list" where
  "save p assigned ps =
     (if assigned then map (\<lambda>x. if product_id x = product_id p then p else x) ps else ps)"

text \<open>
  The handler, for a request that passed the \<open>authenticate\<close> middleware. The state is
  the \<open>Product\<close> collection.
\<close>

definition catalog_update_stock ::
  "(string \<Rightarrow> string) \<Rightarrow> product list \<Rightarrow> string \<Rightarrow> update_body \<Rightarrow> outcome \<times> product list" where
  "catalog_update_stock toUpperCase ps pid b =
     (case find (\<lambda>p. product_id p = pid) ps of
        None \<Rightarrow> (Response 404 (Text ''Producto no encontrado''), ps)
      | Some p \<Rightarrow>
          (case switch_productType toUpperCase p b of
             Return st msg \<Rightarrow> (Response st (Text msg), ps)
           | Reached p' assigned updated \<Rightarrow>
               (if updated then (Response 200 Success, save p' assigned ps)
                else (Response 400 (Text ''No se pudo actualizar el stock''), ps))))"

text \<open>
  No branch of the \<open>switch\<close> applies to the product's stock: the sizes and colours the
  request names are given where required, and the stock has no truthy entry for them.
\<close>

definition no_branch_matches :: "(string \<Rightarrow> string) \<Rightarrow> product \<Rightarrow> update_body \<Rightarrow> bool" where
  "no_branch_matches toUpperCase p b =
     (case productType p of
        Clothing \<Rightarrow>
          truthy_string (body_size b) \<and> truthy_string (body_color b)
          \<and> \<not> truthy_entry (get_prop (stock p) (the (body_size b) @ ''-'' @ the (body_color b)))
      | Accessory \<Rightarrow>
          (case stock p of
             StockNumber n \<Rightarrow> False
           | StockObject kvs \<Rightarrow> \<not> truthy_entry (map_of kvs ''default'')
           | StockArray arr \<Rightarrow> True)
      | _ \<Rightarrow>
          (case stock p of
             StockNumber n \<Rightarrow> False
           | StockObject kvs \<Rightarrow> \<not> truthy_entry (map_of kvs (size_key toUpperCase (body_size b)))
           | StockArray arr \<Rightarrow>
               \<not> list_ex (entry_matches toUpperCase (size_key toUpperCase (body_size b))) arr))"

text \<open>
  The concrete cases below use sizes written in ASCII. On such strings upper-casing
  turns the codes 97 (a) to 122 (z) into the codes 32 lower, that is, clears their
  bit 5, and leaves every other character as it is.
\<close>

definition upper_ascii :: "string \<Rightarrow> string" where
  "upper_ascii x =
     map (\<lambda>c. if (97::nat) \<le> of_char c \<and> of_char c \<le> (122::nat)
               then (case c of Char b0 b1 b2 b3 b4 b5 b6 b7 \<Rightarrow> Char b0 b1 b2 b3 b4 False b6 b7)
               else c) x"

text \<open>Data for the concrete cases below.\<close>

definition mk_doc :: "string \<Rightarrow> string \<Rightarrow> string \<Rightarrow> int \<Rightarrow> stock_doc" where
  "mk_doc p sz c q = \<lparr>productId = p, stock_size = sz, stock_color = c, quantity = q\<rparr>"

definition mk_item :: "string \<Rightarrow> string \<Rightarrow> string \<Rightarrow> int \<Rightarrow> item" where
  "mk_item p sz c q = \<lparr>item_id = p, item_size = sz, item_color = c, item_quantity = q\<rparr>"

definition db_of :: "stock_doc list \<Rightarrow> db" where
  "db_of docs = \<lparr>committed = docs, pending = None, oplog = []\<rparr>"

section \<open>Facts about the store operations\<close>

lemma record_op_simps [simp]:
  "committed (record_op x s) = committed s"
  "pending (record_op x s) = pending s"
  "oplog (record_op x s) = oplog s @ [x]"
  by (simp_all add: record_op_def)

lemma view_simps [simp]:
  "pending s = Some w \<Longrightarrow> view s = w"
  "pending s = None \<Longrightarrow> view s = committed s"
  by (simp_all add: view_def)

subsection \<open>update_first\<close>

lemma update_first_none:
  "\<forall>d\<in>set ds. \<not> P d \<Longrightarrow> update_first P f ds = (None, ds)"
  by (induction ds) auto

lemma update_first_fst: "fst (update_first P f ds) = map_option f (find P ds)"
  by (induction ds) (auto split: prod.splits)

lemma update_first_rejected:
  "update_first P f ds = (None, ds') \<Longrightarrow> ds' = ds \<and> (\<forall>d\<in>set ds. \<not> P d)"
  by (induction ds arbitrary: ds') (auto split: if_splits prod.splits)

lemma update_first_rel:
  "update_first P f ds = (r, ds') \<Longrightarrow> list_all2 (\<lambda>x y. y = x \<or> (P x \<and> y = f x)) ds ds'"
proof (induction ds arbitrary: r ds')
  case Nil
  then show ?case by simp
next
  case (Cons d ds)
  show ?case
  proof (cases "P d")
    case True
    with Cons.prems have "ds' = f d # ds" by simp
    then show ?thesis using True by (simp add: list_all2_same list.rel_refl)
  next
    case False
    obtain r0 ds0 where u: "update_first P f ds = (r0, ds0)" by force
    with Cons.prems False have "ds' = d # ds0" by simp
    then show ?thesis using Cons.IH [OF u] by simp
  qed
qed

lemma update_first_unique:
  assumes "distinct (map doc_key ds)"
  shows "update_first (gte_filter it) f ds =
           (case find (matches_key it) ds of
              None \<Rightarrow> (None, ds)
            | Some d \<Rightarrow>
                if item_quantity it \<le> quantity d
                then (Some (f d), map (\<lambda>x. if matches_key it x then f x else x) ds)
                else (None, ds))"
  using assms
proof (induction ds)
  case Nil
  show ?case by simp
next
  case (Cons d ds)
  show ?case
  proof (cases "matches_key it d")
    case True
    have nomatch: "\<forall>x\<in>set ds. \<not> matches_key it x"
    proof
      fix x assume x: "x \<in> set ds"
      show "\<not> matches_key it x"
      proof
        assume "matches_key it x"
        with True have "doc_key x = doc_key d" by (simp add: matches_key_def doc_key_def)
        moreover from Cons.prems have "doc_key d \<notin> doc_key ` set ds" by simp
        ultimately show False using x by (metis imageI)
      qed
    qed
    then have m: "map (\<lambda>x. if matches_key it x then f x else x) ds = ds"
      by (simp add: map_idI)
    from nomatch have "update_first (gte_filter it) f ds = (None, ds)"
      by (simp add: update_first_none gte_filter_def)
    moreover have "gte_filter it d \<longleftrightarrow> item_quantity it \<le> quantity d"
      using True by (simp add: gte_filter_def)
    ultimately show ?thesis using True m by simp
  next
    case False
    from Cons.prems have "distinct (map doc_key ds)" by simp
    moreover have "\<not> gte_filter it d" using False by (simp add: gte_filter_def)
    ultimately show ?thesis using Cons.IH False
      by (simp split: option.splits)
  qed
qed

lemma list_all2_right_member:
  "list_all2 R xs ys \<Longrightarrow> y \<in> set ys \<Longrightarrow> \<exists>x\<in>set xs. R x y"
  by (induction rule: list_all2_induct) auto

subsection \<open>findOneAndUpdate\<close>

lemma findOneAndUpdate_view:
  assumes "findOneAndUpdate s it = (r, s')"
  shows "update_first (gte_filter it) (inc_update it) (view s) = (r, view s')"
    and "pending s \<noteq> None \<Longrightarrow> committed s' = committed s \<and> pending s' \<noteq> None"
    and "pending s = None \<Longrightarrow> pending s' = None"
    and "oplog s' = oplog s @ [OpFindOneAndUpdate (item_id it) (item_size it) (item_color it) (item_quantity it)]"
  using assms
  by (auto simp: findOneAndUpdate_def Let_def view_def split: option.splits prod.splits)

lemma inc_update_simps [simp]:
  "quantity (inc_update it d) = quantity d - item_quantity it"
  "matches_key it' (inc_update it d) = matches_key it' d"
  "doc_key (inc_update it d) = doc_key d"
  by (simp_all add: inc_update_def matches_key_def doc_key_def)

lemma update_first_nonneg:
  assumes "update_first (gte_filter it) (inc_update it) ds = (r, ds')" and "nonneg ds"
  shows "nonneg ds'"
proof -
  from update_first_rel [OF assms(1)]
  have rel: "list_all2 (\<lambda>x y. y = x \<or> (gte_filter it x \<and> y = inc_update it x)) ds ds'" .
  have "\<forall>y\<in>set ds'. 0 \<le> quantity y"
  proof
    fix y assume "y \<in> set ds'"
    then obtain x where x: "x \<in> set ds" "y = x \<or> (gte_filter it x \<and> y = inc_update it x)"
      using list_all2_right_member [OF rel] by blast
    from x(1) assms(2) have "0 \<le> quantity x" by (simp add: nonneg_def list_all_iff)
    with x(2) show "0 \<le> quantity y" by (auto simp: gte_filter_def)
  qed
  then show ?thesis by (simp add: nonneg_def list_all_iff)
qed



lemma update_first_unsat_none:
  "unsatisfiable ds it \<Longrightarrow> update_first (gte_filter it) f ds = (None, ds)"
  by (rule update_first_none) (auto simp: unsatisfiable_def list_all_iff gte_filter_def)

subsection \<open>The loop of /update-stock\<close>

lemma update_loop_committed:
  "pending s \<noteq> None \<Longrightarrow> update_loop s xs acc = (r, s')
     \<Longrightarrow> committed s' = committed s \<and> pending s' \<noteq> None"
proof (induction s xs acc rule: update_loop.induct)
  case (1 s updates)
  then show ?case by simp
next
  case (2 s rest updates)
  then show ?case by simp
next
  case (3 s it rest updates)
  obtain r0 s0 where f: "findOneAndUpdate s it = (r0, s0)" by force
  from findOneAndUpdate_view(2) [OF f] "3.prems"(1)
  have c: "committed s0 = committed s" "pending s0 \<noteq> None" by simp_all
  show ?case
  proof (cases r0)
    case None
    with f "3.prems"(2) c show ?thesis by auto
  next
    case (Some d)
    with f "3.prems"(2) have "update_loop s0 rest
        (updates @ [\<lparr>upd_id = item_id it, upd_size = item_size it, upd_color = item_color it,
                 newStock = quantity d\<rparr>]) = (r, s')" by simp
    from "3.IH" [OF f [symmetric] _ c(2) this] Some c show ?thesis by simp
  qed
qed

lemma update_loop_nonneg:
  "nonneg (view s) \<Longrightarrow> update_loop s xs acc = (r, s') \<Longrightarrow> nonneg (view s')"
proof (induction s xs acc rule: update_loop.induct)
  case (1 s updates)
  then show ?case by simp
next
  case (2 s rest updates)
  then show ?case by simp
next
  case (3 s it rest updates)
  obtain r0 s0 where f: "findOneAndUpdate s it = (r0, s0)" by force
  from update_first_nonneg [OF findOneAndUpdate_view(1) [OF f] "3.prems"(1)]
  have n: "nonneg (view s0)" .
  show ?case
  proof (cases r0)
    case None
    with f "3.prems"(2) n show ?thesis by auto
  next
    case (Some d)
    with f "3.prems"(2) have "update_loop s0 rest
        (updates @ [\<lparr>upd_id = item_id it, upd_size = item_size it, upd_color = item_color it,
                 newStock = quantity d\<rparr>]) = (r, s')" by simp
    from "3.IH" [OF f [symmetric] _ n this] Some show ?thesis by simp
  qed
qed


section \<open>Facts about the handlers\<close>

lemma findIndex_None: "findIndex P xs = None \<longleftrightarrow> \<not> list_ex P xs"
  by (induction xs) auto

lemma check_loop_objs:
  "check_loop s (map ItemObj its) acc =
     (Inr (acc @ map (\<lambda>it. \<lparr>res_id = item_id it, res_size = item_size it, res_color = item_color it,
                 available = (case find (matches_key it) (committed s) of
                                Some p \<Rightarrow> quantity p | None \<Rightarrow> 0),
                 requested = item_quantity it\<rparr>) its),
      s\<lparr>oplog := oplog s @ map (\<lambda>it. OpFindOne (item_id it) (item_size it) (item_color it)) its\<rparr>)"
proof (induction its arbitrary: s acc)
  case Nil
  show ?case by simp
next
  case (Cons it its)
  show ?case
    by (simp add: findOne_def Cons.IH record_op_def)
qed

lemma begin_simps [simp]:
  "committed (startTransaction (startSession s)) = committed s"
  "pending (startTransaction (startSession s)) = Some (committed s)"
  "oplog (startTransaction (startSession s)) = oplog s @ [OpStartSession, OpStartTransaction]"
  by (simp_all add: startTransaction_def startSession_def record_op_def)

lemma end_simps [simp]:
  "committed (endSession (commitTransaction s)) = view s"
  "committed (endSession (abortTransaction s)) = committed s"
  "pending (endSession t) = None"
  "oplog (endSession (commitTransaction s)) = oplog s @ [OpCommit, OpEndSession]"
  "oplog (endSession (abortTransaction s)) = oplog s @ [OpAbort, OpEndSession]"
  by (simp_all add: endSession_def commitTransaction_def abortTransaction_def record_op_def)



lemma update_stock_try_nonneg:
  assumes "pending s \<noteq> None" and "nonneg (committed s)" and "nonneg (view s)"
  shows "nonneg (committed (snd (update_stock_try s items)))"
proof (cases items)
  case NotIterable
  with assms(2) show ?thesis by (simp add: update_stock_try_def)
next
  case (ItemsArray xs)
  obtain r s' where l: "update_loop s xs [] = (r, s')" by force
  from update_loop_committed [OF assms(1) l] have c: "committed s' = committed s" by simp
  from update_loop_nonneg [OF assms(3) l] have v: "nonneg (view s')" .
  show ?thesis
  proof (cases r)
    case (Inl e)
    with ItemsArray l c assms(2) show ?thesis by (simp add: update_stock_try_def)
  next
    case (Inr ups)
    with ItemsArray l v show ?thesis by (simp add: update_stock_try_def)
  qed
qed

lemma reserve_nonneg: "nonneg (committed s) \<Longrightarrow> nonneg (committed (snd (reserve s items)))"
  unfolding reserve_def by (rule update_stock_try_nonneg) simp_all

lemma run_reservations_nonneg:
  "nonneg (committed s) \<Longrightarrow> nonneg (committed (run_reservations s rs))"
  by (induction rs arbitrary: s) (simp_all add: reserve_nonneg)

lemma update_stock_unchanged: "update_stock s items = (Unhandled (ReferenceError ''mongoose''), s)"
  by (simp add: update_stock_def resolve_def stockRoutes_bindings_def node_module_wrapper_def)

lemma check_loop_committed:
  "check_loop s xs acc = (r, s') \<Longrightarrow> committed s' = committed s \<and> pending s' = pending s"
proof (induction s xs acc rule: check_loop.induct)
  case (1 s results)
  then show ?case by simp
next
  case (2 s rest results)
  then show ?case by simp
next
  case (3 s it rest results)
  obtain p s0 where f: "findOne s it = (p, s0)" by force
  then have s0: "committed s0 = committed s" "pending s0 = pending s"
    by (auto simp: findOne_def)
  from f "3.prems" have "check_loop s0 rest
            (results @
               [\<lparr>res_id = item_id it, res_size = item_size it, res_color = item_color it,
                 available = (case p of Some p \<Rightarrow> quantity p | None \<Rightarrow> 0),
                 requested = item_quantity it\<rparr>]) = (r, s')" by simp
  from "3.IH" [OF f [symmetric] this] s0 show ?case by simp
qed

lemma check_stock_committed:
  "committed (snd (check_stock s items)) = committed s"
  "pending (snd (check_stock s items)) = pending s"
proof -
  have "committed (snd (check_stock s items)) = committed s \<and> pending (snd (check_stock s items)) = pending s"
  proof (cases items)
    case NotIterable
    then show ?thesis by (simp add: check_stock_def)
  next
    case (ItemsArray xs)
    obtain r s' where l: "check_loop s xs [] = (r, s')" by force
    from check_loop_committed [OF l] ItemsArray l show ?thesis
      by (cases r) (simp_all add: check_stock_def)
  qed
  then show "committed (snd (check_stock s items)) = committed s"
    and "pending (snd (check_stock s items)) = pending s" by simp_all
qed



lemma handle_committed: "committed (snd (handle s c)) = committed s"
  by (cases c) (simp_all add: check_stock_committed update_stock_unchanged)

lemma run_calls_committed: "committed (run_calls s cs) = committed s"
  by (induction cs arbitrary: s) (simp_all add: handle_committed)

lemma update_loop_first_failure:
  "update_loop s (map ItemObj pre) acc = (Inr acc', s1) \<Longrightarrow> fst (findOneAndUpdate s1 it) = None
     \<Longrightarrow> fst (update_loop s (map ItemObj pre @ ItemObj it # post) acc)
           = Inl (Error (insufficient_message it))"
proof (induction pre arbitrary: s acc)
  case Nil
  obtain r0 s0 where f: "findOneAndUpdate s1 it = (r0, s0)" by force
  with Nil show ?case by simp
next
  case (Cons p pre)
  obtain r0 s0 where f: "findOneAndUpdate s p = (r0, s0)" by force
  show ?case
  proof (cases r0)
    case None
    with f Cons.prems(1) show ?thesis by simp
  next
    case (Some d)
    with f Cons.prems Cons.IH show ?thesis by simp
  qed
qed

subsection \<open>The \<open>try\<close> block on a request whose lines can all be served\<close>

text \<open>
  When the collection satisfies the unique index, the lines have distinct keys and each
  line's record holds at least the amount, the \<open>try\<close> block answers success with one
  update per line, in the order of the lines, each with the record's quantity less the
  amount.
\<close>

lemma matches_key_iff: "matches_key it d \<longleftrightarrow> doc_key d = item_key it"
  by (auto simp: matches_key_def doc_key_def item_key_def)

lemma find_after_decrement:
  assumes "item_key l \<noteq> item_key it"
  shows "find (matches_key l) (map (\<lambda>x. if matches_key it x then inc_update it x else x) ds)
         = find (matches_key l) ds"
proof (induction ds)
  case Nil
  show ?case by simp
next
  case (Cons d ds)
  have "matches_key l d \<Longrightarrow> \<not> matches_key it d"
    using assms by (simp add: matches_key_iff)
  with Cons show ?case by auto
qed

lemma unique_after_decrement:
  assumes "unique_index ds"
  shows "unique_index (map (\<lambda>x. if matches_key it x then inc_update it x else x) ds)"
proof -
  have "map doc_key (map (\<lambda>x. if matches_key it x then inc_update it x else x) ds) = map doc_key ds"
    by (induction ds) auto
  with assms show ?thesis unfolding unique_index_def by (simp only:)
qed

lemma update_loop_success:
  assumes "unique_index (view s)" and "distinct (map item_key its)"
    and "\<forall>l\<in>set its. \<exists>d. find (matches_key l) (view s) = Some d \<and> item_quantity l \<le> quantity d"
  shows "fst (update_loop s (map ItemObj its) acc)
         = Inr (acc @ map (\<lambda>l. \<lparr>upd_id = item_id l, upd_size = item_size l, upd_color = item_color l,
                                 newStock = quantity (the (find (matches_key l) (view s)))
                                            - item_quantity l\<rparr>) its)"
  using assms
proof (induction its arbitrary: s acc)
  case Nil
  show ?case by simp
next
  case (Cons it its)
  from Cons.prems(3) obtain d where d: "find (matches_key it) (view s) = Some d"
    "item_quantity it \<le> quantity d" by auto
  obtain r s' where f: "findOneAndUpdate s it = (r, s')" by force
  from Cons.prems(1) have "distinct (map doc_key (view s))" by (simp add: unique_index_def)
  from update_first_unique [OF this, of it "inc_update it"] d findOneAndUpdate_view(1) [OF f]
  have r: "r = Some (inc_update it d)"
    and v: "view s' = map (\<lambda>x. if matches_key it x then inc_update it x else x) (view s)"
    by simp_all
  have keys: "\<forall>l\<in>set its. item_key l \<noteq> item_key it"
  proof
    fix l assume "l \<in> set its"
    then have "item_key l \<in> item_key ` set its" by (rule imageI)
    moreover from Cons.prems(2) have "item_key it \<notin> item_key ` set its" by simp
    ultimately show "item_key l \<noteq> item_key it" by metis
  qed
  have same: "\<forall>l\<in>set its. find (matches_key l) (view s') = find (matches_key l) (view s)"
    using keys v by (simp add: find_after_decrement)
  have u': "unique_index (view s')" using Cons.prems(1) v by (simp add: unique_after_decrement)
  have d': "distinct (map item_key its)" using Cons.prems(2) by simp
  have e': "\<forall>l\<in>set its. \<exists>d. find (matches_key l) (view s') = Some d \<and> item_quantity l \<le> quantity d"
    using Cons.prems(3) same by simp
  have "fst (update_loop s (map ItemObj (it # its)) acc)
        = fst (update_loop s' (map ItemObj its)
                 (acc @ [\<lparr>upd_id = item_id it, upd_size = item_size it, upd_color = item_color it,
                           newStock = quantity (inc_update it d)\<rparr>]))"
    using f r by simp
  also have "\<dots> = Inr ((acc @ [\<lparr>upd_id = item_id it, upd_size = item_size it, upd_color = item_color it,
                           newStock = quantity (inc_update it d)\<rparr>])
                      @ map (\<lambda>l. \<lparr>upd_id = item_id l, upd_size = item_size l, upd_color = item_color l,
                                 newStock = quantity (the (find (matches_key l) (view s')))
                                            - item_quantity l\<rparr>) its)"
    by (rule Cons.IH [OF u' d' e'])
  also have "map (\<lambda>l. \<lparr>upd_id = item_id l, upd_size = item_size l, upd_color = item_color l,
                                 newStock = quantity (the (find (matches_key l) (view s')))
                                            - item_quantity l\<rparr>) its
             = map (\<lambda>l. \<lparr>upd_id = item_id l, upd_size = item_size l, upd_color = item_color l,
                                 newStock = quantity (the (find (matches_key l) (view s)))
                                            - item_quantity l\<rparr>) its"
    using same by simp
  finally show ?case using d by simp
qed

lemma reserve_success:
  assumes "unique_index (committed s)" and "distinct (map item_key its)"
    and "\<forall>l\<in>set its. \<exists>d. find (matches_key l) (committed s) = Some d \<and> item_quantity l \<le> quantity d"
  shows "fst (reserve s (ItemsArray (map ItemObj its)))
         = Response 200
             (Updates (map (\<lambda>l. \<lparr>upd_id = item_id l, upd_size = item_size l, upd_color = item_color l,
                                 newStock = quantity (the (find (matches_key l) (committed s)))
                                            - item_quantity l\<rparr>) its))"
proof -
  let ?s0 = "startTransaction (startSession s)"
  have v: "view ?s0 = committed s" by simp
  obtain r s' where l: "update_loop ?s0 (map ItemObj its) [] = (r, s')" by force
  from update_loop_success [of ?s0 its "[]"] assms v l
  have "r = Inr (map (\<lambda>l. \<lparr>upd_id = item_id l, upd_size = item_size l, upd_color = item_color l,
                                 newStock = quantity (the (find (matches_key l) (committed s)))
                                            - item_quantity l\<rparr>) its)"
    by simp
  with l show ?thesis by (simp add: reserve_def update_stock_try_def)
qed

lemmas example_defs = mk_doc_def mk_item_def db_of_def

lemmas store_defs = startTransaction_def startSession_def commitTransaction_def
  abortTransaction_def endSession_def record_op_def findOneAndUpdate_def findOne_def
  gte_filter_def inc_update_def matches_key_def view_def

lemmas route_defs = reserve_def update_stock_try_def check_stock_def insufficient_message_def

lemmas catalog_defs = catalog_update_stock_def switch_productType_def switch_clothing_def
  switch_accessory_def switch_gloves_def decrement_entry_def decrement_number_def save_def
  size_key_def upper_ascii_def entry_matches_def Let_def

section \<open>The claims\<close>




text \<open>
  Claim C2 (no negative stock). On a collection whose quantities are all at least 0, the
  decrement of one line leaves them so and returns a quantity of at least 0; a decrement
  that would take every record of the line's key below 0 is rejected and changes
  nothing; and after any sequence of reservations, run as the \<open>try\<close> block on opened
  transactions or sent to the two routes as they are, the committed quantities are all
  at least 0. Requests are run one after the other.
\<close>

theorem quantity_never_negative:
  assumes "nonneg (committed s)" and "nonneg (view s)"
  shows "nonneg (view (snd (findOneAndUpdate s it)))
       \<and> (\<forall>d. fst (findOneAndUpdate s it) = Some d \<longrightarrow> 0 \<le> quantity d)
       \<and> ((\<forall>d\<in>set (view s). matches_key it d \<longrightarrow> quantity d - item_quantity it < 0) \<longrightarrow>
            fst (findOneAndUpdate s it) = None \<and> view (snd (findOneAndUpdate s it)) = view s)
       \<and> nonneg (committed (run_reservations s reqs))
       \<and> nonneg (committed (run_calls s calls))"
proof (intro conjI allI impI)
  obtain r s' where f: "findOneAndUpdate s it = (r, s')" by force
  note u = findOneAndUpdate_view(1) [OF f]
  from update_first_nonneg [OF u assms(2)] f
  show "nonneg (view (snd (findOneAndUpdate s it)))" by simp
  {
    fix d assume "fst (findOneAndUpdate s it) = Some d"
    with f u have "map_option (inc_update it) (find (gte_filter it) (view s)) = Some d"
      using update_first_fst [of "gte_filter it" "inc_update it" "view s"] by simp
    then obtain x where x: "find (gte_filter it) (view s) = Some x" "d = inc_update it x"
      by (cases "find (gte_filter it) (view s)") auto
    from x(1) have "gte_filter it x" by (auto simp: find_Some_iff)
    with x(2) show "0 \<le> quantity d" by (simp add: gte_filter_def)
  }
  {
    assume "\<forall>d\<in>set (view s). matches_key it d \<longrightarrow> quantity d - item_quantity it < 0"
    then have "unsatisfiable (view s) it" by (simp add: unsatisfiable_def list_all_iff)
    from update_first_unsat_none [OF this, of "inc_update it"] u f
    show "fst (findOneAndUpdate s it) = None" and "view (snd (findOneAndUpdate s it)) = view s"
      by simp_all
  }
  show "nonneg (committed (run_reservations s reqs))"
    using assms(1) by (rule run_reservations_nonneg)
  show "nonneg (committed (run_calls s calls))"
    using assms(1) by (simp add: run_calls_committed)
qed

text \<open>
  Scenario 5 of the specification: 5 in stock, a reservation of 3 leaves 2, a second
  reservation of 3 is rejected and the stock stays at 2.
\<close>

theorem quantity_never_negative_witness:
  "nonneg (committed (db_of [mk_doc ''A'' ''M'' ''red'' 5]))
   \<and> nonneg (view (db_of [mk_doc ''A'' ''M'' ''red'' 5]))
   \<and> fst (findOneAndUpdate (db_of [mk_doc ''A'' ''M'' ''red'' 5]) (mk_item ''A'' ''M'' ''red'' 6)) = None
   \<and> committed (run_reservations (db_of [mk_doc ''A'' ''M'' ''red'' 5])
        [ItemsArray [ItemObj (mk_item ''A'' ''M'' ''red'' 3)],
         ItemsArray [ItemObj (mk_item ''A'' ''M'' ''red'' 3)]]) = [mk_doc ''A'' ''M'' ''red'' 2]
   \<and> nonneg (committed (run_reservations (db_of [mk_doc ''A'' ''M'' ''red'' 5])
        [ItemsArray [ItemObj (mk_item ''A'' ''M'' ''red'' 3)],
         ItemsArray [ItemObj (mk_item ''A'' ''M'' ''red'' 3)]]))"
  using quantity_never_negative [of "db_of [mk_doc ''A'' ''M'' ''red'' 5]"
      "mk_item ''A'' ''M'' ''red'' 6"
      "[ItemsArray [ItemObj (mk_item ''A'' ''M'' ''red'' 3)],
         ItemsArray [ItemObj (mk_item ''A'' ''M'' ''red'' 3)]]" "[]"]
  by (simp add: example_defs nonneg_def store_defs route_defs)

text \<open>
  Claim C3 (the single-line decrement). On a collection that satisfies the unique index,
  the decrement of a line succeeds exactly when a record with the line's key exists and
  holds at least the amount: then it returns that record with the amount subtracted and
  the record is the only one changed; otherwise it returns nothing and the collection is
  unchanged.
\<close>

theorem findOneAndUpdate_decrement:
  assumes "unique_index (view s)"
  shows "case find (matches_key it) (view s) of
           None \<Rightarrow>
             fst (findOneAndUpdate s it) = None
             \<and> view (snd (findOneAndUpdate s it)) = view s
             \<and> committed (snd (findOneAndUpdate s it)) = committed s
         | Some d \<Rightarrow>
             if item_quantity it \<le> quantity d
             then fst (findOneAndUpdate s it) = Some (d\<lparr>quantity := quantity d - item_quantity it\<rparr>)
                \<and> view (snd (findOneAndUpdate s it))
                    = map (\<lambda>x. if matches_key it x
                                then x\<lparr>quantity := quantity x - item_quantity it\<rparr> else x) (view s)
             else fst (findOneAndUpdate s it) = None
                \<and> view (snd (findOneAndUpdate s it)) = view s
                \<and> committed (snd (findOneAndUpdate s it)) = committed s"
proof -
  obtain r s' where f: "findOneAndUpdate s it = (r, s')" by force
  note u = findOneAndUpdate_view(1) [OF f]
  from assms have "distinct (map doc_key (view s))" by (simp add: unique_index_def)
  note q = update_first_unique [OF this, of it "inc_update it"]
  have c: "view s' = view s \<Longrightarrow> committed s' = committed s"
    using findOneAndUpdate_view(2,3) [OF f] by (cases "pending s") (auto simp: view_def)
  show ?thesis
  proof (cases "find (matches_key it) (view s)")
    case None
    with q u f c show ?thesis by simp
  next
    case (Some d)
    with q u f c show ?thesis by (auto simp: inc_update_def)
  qed
qed

theorem findOneAndUpdate_decrement_witness:
  "unique_index (view (startTransaction (db_of [mk_doc ''A'' ''M'' ''red'' 5])))
   \<and> fst (findOneAndUpdate (startTransaction (db_of [mk_doc ''A'' ''M'' ''red'' 5]))
            (mk_item ''A'' ''M'' ''red'' 3)) = Some (mk_doc ''A'' ''M'' ''red'' 2)
   \<and> view (snd (findOneAndUpdate (startTransaction (db_of [mk_doc ''A'' ''M'' ''red'' 5]))
            (mk_item ''A'' ''M'' ''red'' 3))) = [mk_doc ''A'' ''M'' ''red'' 2]"
  using findOneAndUpdate_decrement [of "startTransaction (db_of [mk_doc ''A'' ''M'' ''red'' 5])"
      "mk_item ''A'' ''M'' ''red'' 3"]
  by (simp add: example_defs unique_index_def doc_key_def store_defs)

text \<open>
  Claim C4, as stated: the report for a line with no record differs from the report for a
  line whose record holds too little. It is false. A request for 3 of A-M-red gets the
  same report from the \<open>try\<close> block on an empty collection and on a collection that
  holds 1 of A-M-red (and the same unhandled error from the handler).
\<close>

theorem not_found_report_counterexample:
  "find (matches_key (mk_item ''A'' ''M'' ''red'' 3)) (committed (db_of [])) = None
   \<and> find (matches_key (mk_item ''A'' ''M'' ''red'' 3)) (committed (db_of [mk_doc ''A'' ''M'' ''red'' 1]))
       = Some (mk_doc ''A'' ''M'' ''red'' 1)
   \<and> quantity (mk_doc ''A'' ''M'' ''red'' 1) < item_quantity (mk_item ''A'' ''M'' ''red'' 3)
   \<and> fst (reserve (db_of []) (ItemsArray [ItemObj (mk_item ''A'' ''M'' ''red'' 3)]))
       = Response 400 (Failure ''Stock insuficiente para A-M-red'')
   \<and> fst (reserve (db_of [mk_doc ''A'' ''M'' ''red'' 1]) (ItemsArray [ItemObj (mk_item ''A'' ''M'' ''red'' 3)]))
       = Response 400 (Failure ''Stock insuficiente para A-M-red'')
   \<and> fst (update_stock (db_of []) (ItemsArray [ItemObj (mk_item ''A'' ''M'' ''red'' 3)]))
       = fst (update_stock (db_of [mk_doc ''A'' ''M'' ''red'' 1])
               (ItemsArray [ItemObj (mk_item ''A'' ''M'' ''red'' 3)]))"
  by (simp add: example_defs store_defs route_defs update_stock_unchanged)

text \<open>
  Claim C4, amended: when the lines before a line have been decremented and the line is
  unsatisfiable on the transaction's copy, whether no record has its key or the record
  holds less than the amount, the \<open>try\<close> block answers status 400 with the message
  \<open>Stock insuficiente para id-size-color\<close>. The report is a function of the line's key
  alone, so the two cases get the same report.
\<close>

theorem same_report_not_found_or_insufficient:
  assumes "update_loop (startTransaction (startSession s)) (map ItemObj pre) [] = (Inr ups, s1)"
    and "unsatisfiable (view s1) it"
  shows "fst (reserve s (ItemsArray (map ItemObj pre @ ItemObj it # post)))
         = Response 400
             (Failure (''Stock insuficiente para '' @ item_id it @ ''-'' @ item_size it
                         @ ''-'' @ item_color it))"
proof -
  obtain r s2 where f: "findOneAndUpdate s1 it = (r, s2)" by force
  from update_first_unsat_none [OF assms(2), of "inc_update it"] findOneAndUpdate_view(1) [OF f]
  have "r = None" by simp
  with f have "fst (findOneAndUpdate s1 it) = None" by simp
  note ff = update_loop_first_failure [OF assms(1) this, of post]
  obtain r' s3 where l: "update_loop (startTransaction (startSession s))
      (map ItemObj pre @ ItemObj it # post) [] = (r', s3)" by force
  with ff have "r' = Inl (Error (insufficient_message it))" by simp
  with l show ?thesis
    by (simp add: reserve_def update_stock_try_def insufficient_message_def)
qed

theorem same_report_not_found_or_insufficient_witness:
  "unsatisfiable [mk_doc ''A'' ''M'' ''red'' 2] (mk_item ''B'' ''L'' ''blue'' 1)
   \<and> unsatisfiable [mk_doc ''A'' ''M'' ''red'' 2] (mk_item ''A'' ''M'' ''red'' 4)
   \<and> fst (reserve (db_of [mk_doc ''A'' ''M'' ''red'' 5])
        (ItemsArray (map ItemObj [mk_item ''A'' ''M'' ''red'' 3] @ ItemObj (mk_item ''B'' ''L'' ''blue'' 1) # [])))
      = Response 400 (Failure ''Stock insuficiente para B-L-blue'')"
  using same_report_not_found_or_insufficient
    [of "db_of [mk_doc ''A'' ''M'' ''red'' 5]" "[mk_item ''A'' ''M'' ''red'' 3]"
        "[\<lparr>upd_id = ''A'', upd_size = ''M'', upd_color = ''red'', newStock = 2\<rparr>]"
        "snd (update_loop (startTransaction (startSession (db_of [mk_doc ''A'' ''M'' ''red'' 5])))
               (map ItemObj [mk_item ''A'' ''M'' ''red'' 3]) [])"
        "mk_item ''B'' ''L'' ''blue'' 1" "[]"]
  by (simp add: example_defs unsatisfiable_def store_defs)

text \<open>
  Claim C5 (stock query). For every list of lines, \<open>/check-stock\<close> answers with one entry
  per line, in the order of the lines, whose \<open>available\<close> is the quantity of the
  committed record with the line's key, or 0 when there is none, and whose \<open>requested\<close>
  is the line's quantity; the database after the call differs from the one before only
  by the reads written to the log.
\<close>

theorem check_stock_results:
  "check_stock s (ItemsArray (map ItemObj its)) =
     (Response 200
        (CheckResults
           (map (\<lambda>it. \<lparr>res_id = item_id it, res_size = item_size it, res_color = item_color it,
                        available = (case find (matches_key it) (committed s) of
                                       Some p \<Rightarrow> quantity p | None \<Rightarrow> 0),
                        requested = item_quantity it\<rparr>) its)),
      s\<lparr>oplog := oplog s @ map (\<lambda>it. OpFindOne (item_id it) (item_size it) (item_color it)) its\<rparr>)"
  by (simp add: check_stock_def check_loop_objs)

theorem check_stock_results_witness:
  "check_stock (db_of [mk_doc ''A'' ''M'' ''red'' 5])
     (ItemsArray (map ItemObj [mk_item ''A'' ''M'' ''red'' 7, mk_item ''B'' ''L'' ''blue'' 1]))
   = (Response 200
        (CheckResults
           [\<lparr>res_id = ''A'', res_size = ''M'', res_color = ''red'', available = 5, requested = 7\<rparr>,
            \<lparr>res_id = ''B'', res_size = ''L'', res_color = ''blue'', available = 0, requested = 1\<rparr>]),
      \<lparr>committed = [mk_doc ''A'' ''M'' ''red'' 5], pending = None,
        oplog = [OpFindOne ''A'' ''M'' ''red'', OpFindOne ''B'' ''L'' ''blue'']\<rparr>)"
  using check_stock_results [of "db_of [mk_doc ''A'' ''M'' ''red'' 5]"
      "[mk_item ''A'' ''M'' ''red'' 7, mk_item ''B'' ''L'' ''blue'' 1]"]
  by (simp add: example_defs matches_key_def)

text \<open>
  Claim C6 (success mirrors the lines). The claim is right about the \<open>try\<close> block and
  wrong about the handler: with 5 of A-M-red in stock, a request for 3 makes the
  \<open>try\<close> block answer success with \<open>newStock = 2\<close> and commit, while the handler fails
  with the unbound identifier \<open>mongoose\<close> and leaves the stock at 5. (Lemma
  \<open>reserve_success\<close> above is the \<open>try\<close> block's behaviour on every such request.)
\<close>

theorem update_stock_success_divergence:
  "update_stock (db_of [mk_doc ''A'' ''M'' ''red'' 5]) (ItemsArray [ItemObj (mk_item ''A'' ''M'' ''red'' 3)])
     = (Unhandled (ReferenceError ''mongoose''), db_of [mk_doc ''A'' ''M'' ''red'' 5])
   \<and> fst (reserve (db_of [mk_doc ''A'' ''M'' ''red'' 5]) (ItemsArray [ItemObj (mk_item ''A'' ''M'' ''red'' 3)]))
     = Response 200 (Updates [\<lparr>upd_id = ''A'', upd_size = ''M'', upd_color = ''red'', newStock = 2\<rparr>])
   \<and> committed (snd (reserve (db_of [mk_doc ''A'' ''M'' ''red'' 5])
                       (ItemsArray [ItemObj (mk_item ''A'' ''M'' ''red'' 3)])))
     = [mk_doc ''A'' ''M'' ''red'' 2]"
  by (simp add: example_defs store_defs route_defs update_stock_unchanged)

text \<open>
  Claim C7 (one failure report). The claim is right about the \<open>try\<close> block and wrong about
  the handler: with 5 of A-M-red in stock, a request for 9 makes the \<open>try\<close> block answer
  status 400 with a message that names A-M-red, while the handler sends no response at
  all: its promise is rejected with the unbound identifier \<open>mongoose\<close>.
\<close>

theorem update_stock_failure_divergence:
  "update_stock (db_of [mk_doc ''A'' ''M'' ''red'' 5]) (ItemsArray [ItemObj (mk_item ''A'' ''M'' ''red'' 9)])
     = (Unhandled (ReferenceError ''mongoose''), db_of [mk_doc ''A'' ''M'' ''red'' 5])
   \<and> message (ReferenceError ''mongoose'') = ''mongoose is not defined''
   \<and> fst (reserve (db_of [mk_doc ''A'' ''M'' ''red'' 5]) (ItemsArray [ItemObj (mk_item ''A'' ''M'' ''red'' 9)]))
     = Response 400 (Failure ''Stock insuficiente para A-M-red'')"
  by (simp add: example_defs store_defs route_defs update_stock_unchanged)




text \<open>
  Claim C9 (the legacy catalog update). For an existing product to whose stock no branch
  of the \<open>switch\<close> applies, the handler answers status 400 with the generic text
  \<open>No se pudo actualizar el stock\<close> and the \<open>Product\<close> collection is unchanged. This
  holds whatever function \<open>toUpperCase\<close> is.
\<close>

theorem catalog_update_no_branch:
  assumes "find (\<lambda>p. product_id p = pid) ps = Some p" and "no_branch_matches toUpperCase p b"
  shows "catalog_update_stock toUpperCase ps pid b
         = (Response 400 (Text ''No se pudo actualizar el stock''), ps)"
proof -
  have "switch_productType toUpperCase p b = Reached p False False"
  proof (cases "productType p")
    case Clothing
    with assms(2) show ?thesis
      by (cases "stock p")
         (auto simp: no_branch_matches_def switch_productType_def switch_clothing_def Let_def
               split: option.splits)
  next
    case Accessory
    with assms(2) show ?thesis
      by (cases "stock p")
         (auto simp: no_branch_matches_def switch_productType_def switch_accessory_def Let_def
               split: option.splits)
  next
    case Gloves
    with assms(2) show ?thesis
      by (cases "stock p")
         (auto simp: no_branch_matches_def switch_productType_def switch_gloves_def Let_def
               findIndex_None split: option.splits)
  next
    case Kneepads
    with assms(2) show ?thesis
      by (cases "stock p")
         (auto simp: no_branch_matches_def switch_productType_def switch_gloves_def Let_def
               findIndex_None split: option.splits)
  qed
  with assms(1) show ?thesis by (simp add: catalog_update_stock_def)
qed

text \<open>
  Gloves stocked in the sizes s and M and asked for in the size xl: no element of the
  array has the size XL.
\<close>

theorem catalog_update_no_branch_witness:
  "find (\<lambda>p. product_id p = ''p2'')
     [\<lparr>product_id = ''p1'', productType = Clothing,
        stock = StockObject [(''M-red'', EntryObject 5)]\<rparr>,
      \<lparr>product_id = ''p2'', productType = Gloves,
        stock = StockArray [\<lparr>entry_size = Some ''s'', entry_talla = None, entry_quantity = 4\<rparr>,
                            \<lparr>entry_size = None, entry_talla = Some ''M'', entry_quantity = 2\<rparr>]\<rparr>]
     = Some \<lparr>product_id = ''p2'', productType = Gloves,
        stock = StockArray [\<lparr>entry_size = Some ''s'', entry_talla = None, entry_quantity = 4\<rparr>,
                            \<lparr>entry_size = None, entry_talla = Some ''M'', entry_quantity = 2\<rparr>]\<rparr>
   \<and> no_branch_matches upper_ascii
       \<lparr>product_id = ''p2'', productType = Gloves,
        stock = StockArray [\<lparr>entry_size = Some ''s'', entry_talla = None, entry_quantity = 4\<rparr>,
                            \<lparr>entry_size = None, entry_talla = Some ''M'', entry_quantity = 2\<rparr>]\<rparr>
       \<lparr>body_size = Some ''xl'', body_color = None, body_quantity = 1\<rparr>
   \<and> catalog_update_stock upper_ascii
       [\<lparr>product_id = ''p1'', productType = Clothing,
          stock = StockObject [(''M-red'', EntryObject 5)]\<rparr>,
        \<lparr>product_id = ''p2'', productType = Gloves,
          stock = StockArray [\<lparr>entry_size = Some ''s'', entry_talla = None, entry_quantity = 4\<rparr>,
                              \<lparr>entry_size = None, entry_talla = Some ''M'', entry_quantity = 2\<rparr>]\<rparr>]
       ''p2'' \<lparr>body_size = Some ''xl'', body_color = None, body_quantity = 1\<rparr>
     = (Response 400 (Text ''No se pudo actualizar el stock''),
        [\<lparr>product_id = ''p1'', productType = Clothing,
          stock = StockObject [(''M-red'', EntryObject 5)]\<rparr>,
        \<lparr>product_id = ''p2'', productType = Gloves,
          stock = StockArray [\<lparr>entry_size = Some ''s'', entry_talla = None, entry_quantity = 4\<rparr>,
                              \<lparr>entry_size = None, entry_talla = Some ''M'', entry_quantity = 2\<rparr>]\<rparr>])"
  using catalog_update_no_branch
    [of "''p2''"
        "[\<lparr>product_id = ''p1'', productType = Clothing,
          stock = StockObject [(''M-red'', EntryObject 5)]\<rparr>,
        \<lparr>product_id = ''p2'', productType = Gloves,
          stock = StockArray [\<lparr>entry_size = Some ''s'', entry_talla = None, entry_quantity = 4\<rparr>,
                              \<lparr>entry_size = None, entry_talla = Some ''M'', entry_quantity = 2\<rparr>]\<rparr>]"
        "\<lparr>product_id = ''p2'', productType = Gloves,
          stock = StockArray [\<lparr>entry_size = Some ''s'', entry_talla = None, entry_quantity = 4\<rparr>,
                              \<lparr>entry_size = None, entry_talla = Some ''M'', entry_quantity = 2\<rparr>]\<rparr>"
        upper_ascii
        "\<lparr>body_size = Some ''xl'', body_color = None, body_quantity = 1\<rparr>"]
  by (simp add: no_branch_matches_def size_key_def entry_matches_def upper_ascii_def)

text \<open>
  Claim C10 (the unbound identifier). On every database and every request the handler of
  \<open>/update-stock\<close> ends with the unhandled ReferenceError for \<open>mongoose\<close> and returns
  the database as it received it: no operation is added to the log, no record is
  decremented, and the outcome is never a success.
\<close>

theorem update_stock_unbound_identifier:
  "update_stock s items = (Unhandled (ReferenceError ''mongoose''), s)
   \<and> \<not> is_success (fst (update_stock s items))
   \<and> oplog (snd (update_stock s items)) = oplog s
   \<and> committed (snd (update_stock s items)) = committed s"
  by (simp add: update_stock_def resolve_def stockRoutes_bindings_def node_module_wrapper_def)

theorem update_stock_unbound_identifier_witness:
  "update_stock (db_of [mk_doc ''A'' ''M'' ''red'' 5]) (ItemsArray [ItemObj (mk_item ''A'' ''M'' ''red'' 3)])
     = (Unhandled (ReferenceError ''mongoose''), db_of [mk_doc ''A'' ''M'' ''red'' 5])"
  using update_stock_unbound_identifier [of "db_of [mk_doc ''A'' ''M'' ''red'' 5]"
      "ItemsArray [ItemObj (mk_item ''A'' ''M'' ''red'' 3)]"]
  by simp


end
